theory Spec2Isabelle
  imports Complex_Main "HOL-Library.Multiset"
begin

section \<open>SAFT: peak detection, dataset naming, histograms, export and grouping\<close>

text \<open>
  A shallow embedding of the peak detectors, the registration of dataset names, the
  histograms, the baseline parameters, the reference peak times and the peak export of
  \<^verbatim>\<open>SAFT.py\<close>, and of the dialog of \<^verbatim>\<open>groupPeaksDialog.py\<close>. Conventions of the whole
  development:
  \<^item> a Python exception is a value of \<open>pyerror\<close>; a method that may raise returns
    \<open>pyerror + 'a\<close> with \<open>Inl\<close> for the exception;
  \<^item> a float is a \<open>real\<close>; where a NaN can occur in the data (peak tables), an entry is a
    \<open>real option\<close> with \<open>None\<close> for NaN. Where the result of a comparison depends on the
    rounding of a product or quotient (the cut-off of findcwtPeaks), the rounding to a
    double is a parameter \<open>fl\<close> of which nothing is assumed;
  \<^item> what a library (numpy, scipy, pandas, openpyxl, Qt) or a module of the repository
    outside the two source files returns is either a parameter of the model or a
    definition that says so in its comment.
\<close>

subsection \<open>Python exceptions\<close>

datatype pyerror =
    NameError string
  | UnboundLocalError string
  | AttributeError string
  | IndexError
  | ValueError string
  | KeyError string
  | ZeroDivisionError
  | Exception string

subsection \<open>numpy helpers used by the peak detectors\<close>

text \<open>\<^verbatim>\<open>np.arange(a, b)\<close> on integers: \<open>a, a+1, ..., b-1\<close> (empty when \<open>b \<le> a\<close>).\<close>

definition arange :: "int \<Rightarrow> int \<Rightarrow> int list" where
  "arange a b = [a..b - 1]"

text \<open>
  Reading one position of an array: a negative position counts from the end, a position
  outside \<open>-n .. n-1\<close> raises IndexError.
\<close>

definition np_index :: "'a list \<Rightarrow> int \<Rightarrow> pyerror + 'a" where
  "np_index xs i =
     (if 0 \<le> i \<and> i < int (length xs) then Inr (xs ! nat i)
      else if - int (length xs) \<le> i \<and> i < 0 then Inr (xs ! nat (int (length xs) + i))
      else Inl IndexError)"

text \<open>\<^verbatim>\<open>xs[idx]\<close> with an integer index array: every position is read, the first bad one raises.\<close>

fun np_take :: "'a list \<Rightarrow> int list \<Rightarrow> pyerror + 'a list" where
  "np_take xs [] = Inr []"
| "np_take xs (i # is) =
     (case np_index xs i of
        Inl e \<Rightarrow> Inl e
      | Inr v \<Rightarrow> (case np_take xs is of Inl e \<Rightarrow> Inl e | Inr vs \<Rightarrow> Inr (v # vs)))"

text \<open>\<^verbatim>\<open>ydat.max()\<close>: the largest sample; ValueError on an empty array.\<close>

definition np_max :: "real list \<Rightarrow> pyerror + real" where
  "np_max ys = (if ys = [] then Inl (ValueError ''zero-size array'') else Inr (Max (set ys)))"

text \<open>\<^verbatim>\<open>xpeak[np.where(ypeak > c)]\<close>: the entries of \<open>xpeak\<close> at the positions where \<open>ypeak\<close> exceeds \<open>c\<close>.\<close>

definition where_gt :: "'a list \<Rightarrow> real list \<Rightarrow> real \<Rightarrow> 'a list" where
  "where_gt xpeak ypeak c = map fst (filter (\<lambda>(x, y). y > c) (zip xpeak ypeak))"

subsection \<open>The controls of the peak-finding box (createControlsWidgets)\<close>

text \<open>
  \<^verbatim>\<open>self.cwt_w_Spin = pg.SpinBox(value=6, step=1, bounds=[2, 20], delay=0, int=True)\<close>
\<close>

definition cwt_w_Spin_default :: int where
  "cwt_w_Spin_default = 6"

definition cwt_w_Spin_bounds :: "int \<times> int" where
  "cwt_w_Spin_bounds = (2, 20)"

text \<open>
  The scales handed to \<^verbatim>\<open>scsig.find_peaks_cwt\<close> by findcwtPeaks:
  \<^verbatim>\<open>np.arange(1, self.cwt_width)\<close> with \<^verbatim>\<open>self.cwt_width = self.cwt_w_Spin.value()\<close>.
\<close>

definition cwt_scales :: "int \<Rightarrow> int list" where
  "cwt_scales cwt_width = arange 1 cwt_width"

subsection \<open>findSimplePeaks\<close>

text \<open>
  \<open>find_peaks ydat prominence\<close> stands for \<^verbatim>\<open>scsig.find_peaks(ydat, prominence=...)[0]\<close>, the
  positions scipy reports. \<open>cwt_SNR\<close> is the value of the SNR spin box.

  In the branch for a non-empty result the source reads \<^verbatim>\<open>xdat[peakcwt]\<close>. The name
  \<^verbatim>\<open>peakcwt\<close> is assigned nowhere in findSimplePeaks (the positions are in \<^verbatim>\<open>peaks\<close>) and
  is not a global of the module (it is a local of findcwtPeaks only), so the read raises
  NameError.
\<close>

definition findSimplePeaks ::
  "(real list \<Rightarrow> real \<Rightarrow> nat list) \<Rightarrow> real \<Rightarrow> real list \<Rightarrow> real list
     \<Rightarrow> pyerror + (real list \<times> real list)" where
  "findSimplePeaks find_peaks cwt_SNR xdat ydat =
     (let peaks = find_peaks ydat cwt_SNR;
          npeaks = length peaks
      in if npeaks \<noteq> 0 then Inl (NameError ''peakcwt'')
         else Inr ([], []))"

subsection \<open>findcwtPeaks\<close>

text \<open>
  \<open>find_peaks_cwt ydat widths min_snr\<close> stands for \<^verbatim>\<open>scsig.find_peaks_cwt\<close>, \<open>cwt_width\<close>,
  \<open>cwt_SNR\<close> and \<open>removeSml\<close> for the values of the three spin boxes. The positions the
  method works with are those of the line
  \<^verbatim>\<open>peakcwt = scsig.find_peaks_cwt(ydat, np.arange(1, self.cwt_width), min_snr=self.cwt_SNR) - 1\<close>
\<close>

definition peakcwt ::
  "(real list \<Rightarrow> int list \<Rightarrow> real \<Rightarrow> int list) \<Rightarrow> int \<Rightarrow> real \<Rightarrow> real list \<Rightarrow> int list" where
  "peakcwt find_peaks_cwt cwt_width cwt_SNR ydat =
     map (\<lambda>i. i - 1) (find_peaks_cwt ydat (cwt_scales cwt_width) cwt_SNR)"

text \<open>
  \<^verbatim>\<open>_cutOff = float (self.removeSml_Spin.value()) * ydat.max() / 100.0\<close>, computed in double
  precision from the left: \<open>fl x\<close> stands for the double that a floating-point operation
  with the exact result \<open>x\<close> returns; \<open>m\<close> is \<^verbatim>\<open>ydat.max()\<close>.
\<close>

definition cutOff :: "(real \<Rightarrow> real) \<Rightarrow> real \<Rightarrow> real \<Rightarrow> real" where
  "cutOff fl removeSml m = fl (fl (removeSml * m) / 100)"

text \<open>
  The method. The comparison \<^verbatim>\<open>ypeak > _cutOff\<close> is one of doubles and is exact. In the
  branch for an empty result the source formats a message with \<^verbatim>\<open>_cutOff\<close>, a local that
  only the other branch assigns: the read raises UnboundLocalError before anything is
  returned.
\<close>

definition findcwtPeaks ::
  "(real \<Rightarrow> real) \<Rightarrow> (real list \<Rightarrow> int list \<Rightarrow> real \<Rightarrow> int list) \<Rightarrow> int \<Rightarrow> real \<Rightarrow> real
     \<Rightarrow> real list \<Rightarrow> real list \<Rightarrow> pyerror + (real list \<times> real list)" where
  "findcwtPeaks fl find_peaks_cwt cwt_width cwt_SNR removeSml xdat ydat =
     (let pk = peakcwt find_peaks_cwt cwt_width cwt_SNR ydat;
          npeaks = length pk
      in if npeaks \<noteq> 0 then
           (case np_take xdat pk of
              Inl e \<Rightarrow> Inl e
            | Inr xpeak \<Rightarrow>
           (case np_take ydat pk of
              Inl e \<Rightarrow> Inl e
            | Inr ypeak \<Rightarrow>
           (case np_max ydat of
              Inl e \<Rightarrow> Inl e
            | Inr m \<Rightarrow>
                (let c = cutOff fl removeSml m
                 in Inr (where_gt xpeak ypeak c, where_gt ypeak ypeak c)))))
         else Inl (UnboundLocalError ''_cutOff''))"

text \<open>peaksWrapper: the detector chosen by \<^verbatim>\<open>self.simplePeaks\<close>.\<close>

definition peaksWrapper ::
  "bool \<Rightarrow> (real \<Rightarrow> real) \<Rightarrow> (real list \<Rightarrow> real \<Rightarrow> nat list)
     \<Rightarrow> (real list \<Rightarrow> int list \<Rightarrow> real \<Rightarrow> int list)
     \<Rightarrow> int \<Rightarrow> real \<Rightarrow> real \<Rightarrow> real list \<Rightarrow> real list \<Rightarrow> pyerror + (real list \<times> real list)" where
  "peaksWrapper simplePeaks fl find_peaks find_peaks_cwt cwt_width cwt_SNR removeSml x y =
     (if simplePeaks then findSimplePeaks find_peaks cwt_SNR x y
      else findcwtPeaks fl find_peaks_cwt cwt_width cwt_SNR removeSml x y)"





subsection \<open>updateDatasetComboBox\<close>

text \<open>
  The method returns either \<^verbatim>\<open>False\<close> or the substituted name. \<open>s\<close> is the string that
  \<^verbatim>\<open>utils.getRandomString(3)\<close> hands back at this call (the module \<^verbatim>\<open>utils\<close> is not among
  the source files, so the draw is a parameter). The state is the list
  \<^verbatim>\<open>self.datasetList_CBX\<close> together with the items of the combo box \<^verbatim>\<open>self.datasetCBx\<close>,
  a \<^verbatim>\<open>pg.ComboBox\<close>; createControlsWidgets sets the items to the list, and both start as
  \<^verbatim>\<open>['-']\<close>. The signals the combo box emits are not modelled.
\<close>

datatype duplicate = PyFalse | Substituted string

text \<open>
  Modelled from the spec: \<^verbatim>\<open>utils.getRandomString\<close>, which is not among the source files.
  The spec calls its result for the argument 3 "a random 3-character suffix": a possible
  result for the argument \<open>n\<close> is any string of \<open>n\<close> characters.
\<close>

definition getRandomString :: "nat \<Rightarrow> string \<Rightarrow> bool" where
  "getRandomString n s \<longleftrightarrow> length s = n"

record datasetBox =
  datasetList_CBX :: "string list"
  datasetCBx :: "string list"

definition datasetBox_init :: datasetBox where
  "datasetBox_init = \<lparr>datasetList_CBX = [''-''], datasetCBx = [''-'']\<rparr>"

text \<open>
  \<^verbatim>\<open>pg.ComboBox.addItem(text)\<close> refuses a text that is already an item: it raises
  \<^verbatim>\<open>Exception('ComboBox already has item named ...')\<close>; otherwise the text becomes the last
  item. \<^verbatim>\<open>setItems([name])\<close> clears the box and adds the one name.
\<close>

definition addItem :: "string \<Rightarrow> string list \<Rightarrow> pyerror + string list" where
  "addItem text items =
     (if text \<in> set items then Inl (Exception ''ComboBox already has item'')
      else Inr (items @ [text]))"

text \<open>
  The method. An exception of \<^verbatim>\<open>addItem\<close> leaves the method before the list is appended
  and before anything is returned; list and combo box are then as they were.
\<close>

definition updateDatasetComboBox ::
  "string \<Rightarrow> datasetBox \<Rightarrow> string \<Rightarrow> pyerror + (duplicate \<times> datasetBox)" where
  "updateDatasetComboBox s self name =
     (if datasetList_CBX self = [''-''] then
        Inr (PyFalse, \<lparr>datasetList_CBX = [name], datasetCBx = [name]\<rparr>)
      else if name \<in> set (datasetList_CBX self) then
        (let sname = name @ s
         in case addItem sname (datasetCBx self) of
              Inl e \<Rightarrow> Inl e
            | Inr items \<Rightarrow>
                Inr (Substituted sname,
                     \<lparr>datasetList_CBX = datasetList_CBX self @ [sname], datasetCBx = items\<rparr>))
      else
        (case addItem name (datasetCBx self) of
           Inl e \<Rightarrow> Inl e
         | Inr items \<Rightarrow>
             Inr (PyFalse,
                  \<lparr>datasetList_CBX = datasetList_CBX self @ [name], datasetCBx = items\<rparr>)))"

text \<open>
  The callers (extractAllPeaks, open_file): \<^verbatim>\<open>if _duplicate: ...setDSname(_duplicate)\<close>.
  A string is true when it is not empty. The result is the name the dataset carries
  afterwards.
\<close>

definition truthy :: "duplicate \<Rightarrow> bool" where
  "truthy d = (case d of PyFalse \<Rightarrow> False | Substituted n \<Rightarrow> n \<noteq> [])"

definition resolveDSname ::
  "string \<Rightarrow> datasetBox \<Rightarrow> string \<Rightarrow> pyerror + (string \<times> datasetBox)" where
  "resolveDSname s self DSname =
     (case updateDatasetComboBox s self DSname of
        Inl e \<Rightarrow> Inl e
      | Inr (dup, self') \<Rightarrow>
          Inr ((if truthy dup then (case dup of Substituted n \<Rightarrow> n | PyFalse \<Rightarrow> DSname)
                else DSname),
               self'))"

subsection \<open>Histograms (doHistograms, updateHistograms)\<close>

text \<open>
  Both methods call \<^verbatim>\<open>np.histogram(data, bins=_nbins, range=(0., _max))\<close>. The definition
  follows numpy's equal-width path: refuse a bin count below 1, refuse a range whose upper
  edge is below the lower one, widen an empty range by one half on each side, keep the
  entries \<open>v\<close> with \<open>first_edge \<le> v \<le> last_edge\<close> (a NaN fails both comparisons), give each
  the bin \<open>\<lfloor>(v - first_edge) / (last_edge - first_edge) * bins\<rfloor>\<close>, and put an entry that
  lands on index \<open>bins\<close> (the upper edge itself) into the last bin.
\<close>

definition bin_index :: "nat \<Rightarrow> real \<Rightarrow> real \<Rightarrow> real \<Rightarrow> nat" where
  "bin_index bins first_edge last_edge v =
     (let i = nat \<lfloor>(v - first_edge) / (last_edge - first_edge) * real bins\<rfloor>
      in if i = bins then i - 1 else i)"

definition bincount :: "nat list \<Rightarrow> nat \<Rightarrow> nat list" where
  "bincount indices minlength = map (\<lambda>b. count_list indices b) [0..<minlength]"

definition np_histogram :: "real option list \<Rightarrow> int \<Rightarrow> real \<Rightarrow> real \<Rightarrow> pyerror + nat list" where
  "np_histogram a bins lo hi =
     (if bins < 1 then Inl (ValueError ''bins must be positive'')
      else if lo > hi then Inl (ValueError ''max must be larger than min'')
      else
        (let first_edge = (if lo = hi then lo - 1 / 2 else lo);
             last_edge = (if lo = hi then hi + 1 / 2 else hi);
             kept = [v. Some v \<leftarrow> a, first_edge \<le> v \<and> v \<le> last_edge];
             indices = map (bin_index (nat bins) first_edge last_edge) kept
         in Inr (bincount indices (nat bins))))"

text \<open>
  \<^verbatim>\<open>self.histo_NBin_Spin = pg.SpinBox(value=100, step=10, bounds=[0, 250], delay=0)\<close> and
  \<^verbatim>\<open>self.histo_Max_Spin = pg.SpinBox(value=1, step=0.1, bounds=[0.1, 10], ...)\<close>;
  \<open>pdata\<close> is the amplitude column of one Results cell.
\<close>

definition cell_histogram :: "real option list \<Rightarrow> int \<Rightarrow> real \<Rightarrow> pyerror + nat list" where
  "cell_histogram pdata nbins mx = np_histogram pdata nbins 0 mx"

text \<open>The two ways of counting the amplitudes of a cell that the histogram is compared with.\<close>

definition count_half_open :: "real option list \<Rightarrow> real \<Rightarrow> nat" where
  "count_half_open pdata mx = length [v. Some v \<leftarrow> pdata, 0 \<le> v \<and> v < mx]"

definition count_closed :: "real option list \<Rightarrow> real \<Rightarrow> nat" where
  "count_closed pdata mx = length [v. Some v \<leftarrow> pdata, 0 \<le> v \<and> v \<le> mx]"

subsection \<open>setBaselineParams\<close>

text \<open>
  \<^verbatim>\<open>self.auto_bs_lam_slider\<close>: minimum 2, maximum 9, value 6;
  \<^verbatim>\<open>self.auto_bs_P_slider\<close>: minimum 0, maximum 20, value 3. A QSlider holds an integer
  within its minimum and maximum.
\<close>

definition auto_bs_lam_slider_positions :: "int set" where
  "auto_bs_lam_slider_positions = {2..9}"

definition auto_bs_P_slider_positions :: "int set" where
  "auto_bs_P_slider_positions = {0..20}"

text \<open>
  \<^verbatim>\<open>self.auto_bs_lam = 10 ** lam_slider.value()\<close>,
  \<^verbatim>\<open>self.auto_bs_P = 10 ** (- P_slider.value() / 5)\<close>; the pair is \<open>(lam, p)\<close>.
\<close>

definition setBaselineParams :: "int \<Rightarrow> int \<Rightarrow> real \<times> real" where
  "setBaselineParams lam_value P_value =
     (10 powr real_of_int lam_value, 10 powr (- real_of_int P_value / 5))"

subsection \<open>The peak times stored by extractAllPeaks\<close>

text \<open>
  \<open>peak_t\<close> is the time column that \<^verbatim>\<open>resultsDF.getPeaks('Mean', reference)\<close> hands back (a
  pandas Series; the class Results is not among the source files).
  \<^verbatim>\<open>sort_values(ascending=True)\<close> orders the numbers and puts every NaN last,
  \<^verbatim>\<open>dropna\<close> removes the NaN entries.
\<close>

definition sort_values :: "real option list \<Rightarrow> real option list" where
  "sort_values ser = map Some (sort [v. Some v \<leftarrow> ser]) @ filter (\<lambda>e. e = None) ser"

definition dropna :: "real option list \<Rightarrow> real option list" where
  "dropna ser = filter (\<lambda>e. e \<noteq> None) ser"

record peakTimesState =
  resultsDF_peakTimes :: "real option list"
  extPa_tPeaks :: "real option list"
  extracted_peakTimes :: "real option list option"

text \<open>
  The part of extractAllPeaks that computes and stores the reference times; \<open>accepted\<close> is
  the result of the extraction dialog. Only an accepted dialog creates the extracted dataset.
\<close>

definition extractAllPeaks :: "real option list \<Rightarrow> bool \<Rightarrow> peakTimesState" where
  "extractAllPeaks peak_t accepted =
     (let sorted_peak_t = dropna (sort_values peak_t)
      in \<lparr>resultsDF_peakTimes = sorted_peak_t,
          extPa_tPeaks = sorted_peak_t,
          extracted_peakTimes = (if accepted then Some sorted_peak_t else None)\<rparr>)"

text \<open>A sequence of times is NaN-free and ascending.\<close>

definition nan_free_ascending :: "real option list \<Rightarrow> bool" where
  "nan_free_ascending ts \<longleftrightarrow> None \<notin> set ts \<and> sorted (map the ts)"

subsection \<open>save_peaks\<close>

text \<open>
  A pandas DataFrame: column labels, row labels (the peak times) and one list of entries
  per row. A worksheet of openpyxl: its cells by (row, column), both counted from 1, and
  the row that \<^verbatim>\<open>append\<close> continues after.
\<close>

record dframe =
  df_columns :: "string list"
  df_index :: "real list"
  df_values :: "real option list list"

datatype xlvalue = XStr string | XNum "real option"

record worksheet =
  cells :: "nat \<times> nat \<Rightarrow> xlvalue option"
  current_row :: nat

definition new_sheet :: worksheet where
  "new_sheet = \<lparr>cells = (\<lambda>_. None), current_row = 0\<rparr>"

text \<open>\<^verbatim>\<open>ws.cell(r, c).value = v\<close>\<close>

definition set_cell :: "nat \<Rightarrow> nat \<Rightarrow> xlvalue \<Rightarrow> worksheet \<Rightarrow> worksheet" where
  "set_cell r c v ws =
     ws\<lparr>cells := (cells ws)((r, c) \<mapsto> v), current_row := max r (current_row ws)\<rparr>"

text \<open>\<^verbatim>\<open>ws.append(row)\<close>: the entries go into the row after the current one, from column 1.\<close>

definition append_row :: "xlvalue list \<Rightarrow> worksheet \<Rightarrow> worksheet" where
  "append_row vs ws =
     (let r = current_row ws + 1
      in ws\<lparr>cells := (\<lambda>(r', c'). if r' = r \<and> 1 \<le> c' \<and> c' \<le> length vs
                                  then Some (vs ! (c' - 1)) else cells ws (r', c')),
            current_row := r\<rparr>)"

text \<open>\<^verbatim>\<open>ws.insert_cols(1)\<close>: every cell moves one column to the right.\<close>

definition insert_cols1 :: "worksheet \<Rightarrow> worksheet" where
  "insert_cols1 ws = ws\<lparr>cells := (\<lambda>(r, c). if c \<le> 1 then None else cells ws (r, c - 1))\<rparr>"

text \<open>
  \<^verbatim>\<open>_resultdf.index.duplicated(keep='first')\<close>: true at every row whose label occurred in an
  earlier row; \<^verbatim>\<open>_resultdf.loc[~...]\<close> keeps the other rows.
\<close>

fun duplicated_first :: "'a list \<Rightarrow> 'a list \<Rightarrow> bool list" where
  "duplicated_first seen [] = []"
| "duplicated_first seen (t # ts) = (t \<in> set seen) # duplicated_first (t # seen) ts"

definition loc_not_duplicated :: "dframe \<Rightarrow> dframe" where
  "loc_not_duplicated df =
     (let dup = duplicated_first [] (df_index df)
      in df\<lparr>df_index := [t. (t, d) \<leftarrow> zip (df_index df) dup, \<not> d],
            df_values := [r. (r, d) \<leftarrow> zip (df_values df) dup, \<not> d]\<rparr>)"

text \<open>
  \<^verbatim>\<open>for _num, _pcol in enumerate(_pe.columns.values): _wcs.cell(1, _num + 1).value = _pcol + " " + _condi\<close>
\<close>

fun write_header :: "nat \<Rightarrow> string list \<Rightarrow> string \<Rightarrow> worksheet \<Rightarrow> worksheet" where
  "write_header num [] condi ws = ws"
| "write_header num (pcol # rest) condi ws =
     write_header (num + 1) rest condi (set_cell 1 (num + 1) (XStr (pcol @ '' '' @ condi)) ws)"

text \<open>\<^verbatim>\<open>for _row in dataframe_to_rows(_pe, index=False, header=False): _wcs.append(_row)\<close>\<close>

fun append_rows :: "real option list list \<Rightarrow> worksheet \<Rightarrow> worksheet" where
  "append_rows [] ws = ws"
| "append_rows (row # rest) ws = append_rows rest (append_row (map XNum row) ws)"

text \<open>
  \<^verbatim>\<open>for _num, _pin in enumerate(_pe.index.values):\<close>
  \<^verbatim>\<open>    _wcs.cell(1,1).value = "Time"\<close>
  \<^verbatim>\<open>    _wcs.cell(_num + 2, 1).value = _pin\<close>
  The heading is written inside the loop, once for every row label.
\<close>

fun write_index :: "nat \<Rightarrow> real list \<Rightarrow> worksheet \<Rightarrow> worksheet" where
  "write_index num [] ws = ws"
| "write_index num (pin # rest) ws =
     write_index (num + 1) rest
       (set_cell (num + 2) 1 (XNum (Some pin)) (set_cell 1 1 (XStr ''Time'') ws))"

text \<open>The body of the loop over the conditions, on the sheet it has just created.\<close>

definition write_sheet :: "string \<Rightarrow> dframe \<Rightarrow> worksheet" where
  "write_sheet condi resultdf =
     (let pe = loc_not_duplicated resultdf;
          ws1 = write_header 0 (df_columns pe) condi new_sheet;
          ws2 = append_rows (df_values pe) ws1;
          ws3 = insert_cols1 ws2
      in write_index 0 (df_index pe) ws3)"

text \<open>\<^verbatim>\<open>{**a, **b}\<close>: the keys of \<open>a\<close> in their order, with the value of \<open>b\<close> where it has the key, then the other keys of \<open>b\<close>.\<close>

definition dict_merge :: "('k \<times> 'v) list \<Rightarrow> ('k \<times> 'v) list \<Rightarrow> ('k \<times> 'v) list" where
  "dict_merge a b =
     map (\<lambda>(k, v). (k, case map_of b k of Some v' \<Rightarrow> v' | None \<Rightarrow> v)) a
     @ filter (\<lambda>(k, v). k \<notin> fst ` set a) b"

text \<open>
  save_peaks. \<open>allowedPeaks\<close> and \<open>excludedPeaks\<close> are the dictionaries that
  \<^verbatim>\<open>utils.decomposeRDF\<close> returns for the Results and for the excluded list (empty when the
  dataset has none); \<^verbatim>\<open>utils\<close> is not among the source files. The result is the list of the
  sheets written, by title, or \<open>None\<close> when nothing is saved. The workbook's initial sheet
  is removed at the end; a condition whose name collides with its title, and the optional
  histogram sheet, are outside the model.
\<close>

definition save_peaks ::
  "bool \<Rightarrow> string \<Rightarrow> (string \<times> dframe) list \<Rightarrow> (string \<times> dframe) list
     \<Rightarrow> (string \<times> worksheet) list option" where
  "save_peaks noPeaks filename allowedPeaks excludedPeaks =
     (if noPeaks then None
      else if filename = [] then None
      else Some (map (\<lambda>(condi, resultdf). (condi, write_sheet condi resultdf))
                     (dict_merge allowedPeaks excludedPeaks)))"

subsection \<open>groupPeaksDialog.py: the class groupDialog\<close>

text \<open>
  The dialog object is its attribute dictionary. Reading an attribute that no statement
  has assigned raises AttributeError, as does reading a missing attribute of a widget or of
  the pandas module. Widgets carry only what the methods read or change: the value of the
  spin box, whether the button is enabled.
\<close>

datatype pyval =
    VInt int
  | VReal real
  | VSpinBox int
  | VButton bool
  | VLabel
  | VFrames "(string \<times> dframe) list"

type_synonym pyobject = "string \<Rightarrow> pyval option"

definition getattr :: "pyobject \<Rightarrow> string \<Rightarrow> pyerror + pyval" where
  "getattr self name = (case self name of None \<Rightarrow> Inl (AttributeError name) | Some v \<Rightarrow> Inr v)"

text \<open>updateGroup: \<^verbatim>\<open>self.NRepeats = self.peaksN / self.groupNSB.value()\<close>, then the label text.\<close>

definition updateGroup :: "pyobject \<Rightarrow> (pyerror + unit) \<times> pyobject" where
  "updateGroup self =
     (case getattr self ''peaksN'' of
        Inl e \<Rightarrow> (Inl e, self)
      | Inr (VInt n) \<Rightarrow>
          (case getattr self ''groupNSB'' of
             Inl e \<Rightarrow> (Inl e, self)
           | Inr (VSpinBox g) \<Rightarrow>
               if g = 0 then (Inl ZeroDivisionError, self)
               else
                 (let self1 = self(''NRepeats'' \<mapsto> VReal (real_of_int n / real_of_int g))
                  in case getattr self1 ''NRepeatsLabel'' of
                       Inl e \<Rightarrow> (Inl e, self1)
                     | Inr _ \<Rightarrow> (Inr (), self1))
           | Inr _ \<Rightarrow> (Inl (AttributeError ''value''), self))
      | Inr _ \<Rightarrow> (Inl (AttributeError ''__truediv__''), self))"

text \<open>
  \<^verbatim>\<open>__init__\<close> and makeDialog: \<^verbatim>\<open>peaksN = 50\<close>, the label, the spin box
  (\<^verbatim>\<open>value=5, bounds=[1, 10]\<close>), the save button (disabled), then updateGroup.
\<close>

definition groupDialog_init :: "(pyerror + unit) \<times> pyobject" where
  "groupDialog_init =
     updateGroup
       ((Map.empty :: pyobject)
          (''peaksN'' \<mapsto> VInt 50, ''NRepeatsLabel'' \<mapsto> VLabel,
           ''groupNSB'' \<mapsto> VSpinBox 5, ''saveGroupsBtn'' \<mapsto> VButton False))"

text \<open>The user moves the spin box to \<open>v\<close>; its valueChanged signal runs updateGroup.\<close>

definition groupNSB_changed :: "int \<Rightarrow> pyobject \<Rightarrow> (pyerror + unit) \<times> pyobject" where
  "groupNSB_changed v self = updateGroup (self(''groupNSB'' \<mapsto> VSpinBox v))"

text \<open>
  addData: the data is stored as \<^verbatim>\<open>self.peakData\<close>; then the method sets the text of
  \<^verbatim>\<open>self.N_ROI_label\<close>.
\<close>

definition addData :: "(string \<times> dframe) list \<Rightarrow> pyobject \<Rightarrow> (pyerror + unit) \<times> pyobject" where
  "addData data self =
     (let self1 = self(''peakData'' \<mapsto> VFrames data)
      in case getattr self1 ''N_ROI_label'' of
           Inl e \<Rightarrow> (Inl e, self1)
         | Inr _ \<Rightarrow> (Inr (), self1))"

text \<open>
  groupPeaks. After \<^verbatim>\<open>self.groupsextracted_by_set = {}\<close> and the read of the spin box, the
  loop header reads \<^verbatim>\<open>self.peakdata\<close>. Inside the loop the first statements are
  \<^verbatim>\<open>c = self.peakData[_set].columns\<close> and \<^verbatim>\<open>pd.dataframe(...)\<close>; pandas has a class DataFrame
  and no attribute \<^verbatim>\<open>dataframe\<close>, so the first pass raises. After a loop over no keys the
  method reads \<^verbatim>\<open>self.saveGroupsBtn.state\<close>, which a QPushButton does not have. No path
  reaches the two stores into \<^verbatim>\<open>groupsextracted_by_set\<close> or \<^verbatim>\<open>setEnabled(True)\<close>.
\<close>

definition groupPeaks :: "pyobject \<Rightarrow> (pyerror + unit) \<times> pyobject" where
  "groupPeaks self =
     (let self1 = self(''groupsextracted_by_set'' \<mapsto> VFrames [])
      in case getattr self1 ''groupNSB'' of
           Inl e \<Rightarrow> (Inl e, self1)
         | Inr (VSpinBox step) \<Rightarrow>
             (case getattr self1 ''peakdata'' of
                Inl e \<Rightarrow> (Inl e, self1)
              | Inr (VFrames d) \<Rightarrow>
                  (case map fst d of
                     [] \<Rightarrow>
                       (case getattr self1 ''saveGroupsBtn'' of
                          Inl e \<Rightarrow> (Inl e, self1)
                        | Inr _ \<Rightarrow> (Inl (AttributeError ''state''), self1))
                   | set0 # _ \<Rightarrow>
                       (case getattr self1 ''peakData'' of
                          Inl e \<Rightarrow> (Inl e, self1)
                        | Inr (VFrames pd) \<Rightarrow>
                            (case map_of pd set0 of
                               None \<Rightarrow> (Inl (KeyError set0), self1)
                             | Some _ \<Rightarrow> (Inl (AttributeError ''dataframe''), self1))
                        | Inr _ \<Rightarrow> (Inl (AttributeError ''__getitem__''), self1)))
              | Inr _ \<Rightarrow> (Inl (AttributeError ''keys''), self1))
         | Inr _ \<Rightarrow> (Inl (AttributeError ''value''), self1))"

text \<open>
  The states of a dialog: after construction, and after any call of addData or groupPeaks
  or any move of the spin box within its bounds.
\<close>

inductive reachable :: "pyobject \<Rightarrow> bool" where
  reach_init: "reachable (snd groupDialog_init)"
| reach_addData: "reachable self \<Longrightarrow> reachable (snd (addData data self))"
| reach_groupPeaks: "reachable self \<Longrightarrow> reachable (snd (groupPeaks self))"
| reach_spin: "reachable self \<Longrightarrow> 1 \<le> v \<Longrightarrow> v \<le> 10 \<Longrightarrow> reachable (snd (groupNSB_changed v self))"

section \<open>Properties\<close>

subsection \<open>Peak detection\<close>




text \<open>
  C1. On a trace in which the library finds no peak, findSimplePeaks returns the pair of
  empty sequences, but findcwtPeaks does not: it raises UnboundLocalError for
  \<^verbatim>\<open>_cutOff\<close> while it formats its "No peaks found" message.
\<close>

theorem C1_no_peaks:
  assumes "find_peaks ydat cwt_SNR = []"
      and "find_peaks_cwt ydat (cwt_scales cwt_width) cwt_SNR = []"
  shows "findSimplePeaks find_peaks cwt_SNR xdat ydat = Inr ([], [])
       \<and> findcwtPeaks fl find_peaks_cwt cwt_width cwt_SNR removeSml xdat ydat
           = Inl (UnboundLocalError ''_cutOff'')"
  using assms by (simp add: findSimplePeaks_def findcwtPeaks_def peakcwt_def)

theorem C1_no_peaks_witness:
  "(\<lambda>y p. []) [0, 0, 0 :: real] (13 / 10 :: real) = ([] :: nat list)
   \<and> (\<lambda>y w s. []) [0, 0, 0 :: real] (cwt_scales 6) (13 / 10 :: real) = ([] :: int list)
   \<and> findSimplePeaks (\<lambda>y p. []) (13 / 10) [0, 1, 2] [0, 0, 0] = Inr ([], [])
   \<and> findcwtPeaks (\<lambda>x. x) (\<lambda>y w s. []) 6 (13 / 10) 30 [0, 1, 2] [0, 0, 0]
       = Inl (UnboundLocalError ''_cutOff'')"
  using C1_no_peaks [where find_peaks = "\<lambda>y p. []" and ydat = "[0, 0, 0]" and cwt_SNR = "13 / 10"
      and find_peaks_cwt = "\<lambda>y w s. []" and cwt_width = 6 and removeSml = 30 and xdat = "[0, 1, 2]"
      and fl = "\<lambda>x. x"]
  by simp

text \<open>
  C2. Whenever scipy's find_peaks reports at least one peak, findSimplePeaks returns
  nothing: it raises NameError for \<^verbatim>\<open>peakcwt\<close>, whatever the time axis and the amplitudes.
\<close>

theorem C2_simple_found:
  assumes "find_peaks ydat cwt_SNR \<noteq> []"
  shows "findSimplePeaks find_peaks cwt_SNR xdat ydat = Inl (NameError ''peakcwt'')"
  using assms by (simp add: findSimplePeaks_def Let_def)

theorem C2_simple_found_witness:
  "(\<lambda>y p. [1]) [0, 1, 0 :: real] (1 / 2 :: real) \<noteq> ([] :: nat list)
   \<and> findSimplePeaks (\<lambda>y p. [1]) (1 / 2) [0, 1, 2] [0, 1, 0] = Inl (NameError ''peakcwt'')"
  using C2_simple_found [of "\<lambda>y p. [1]" "[0, 1, 0]" "1 / 2" "[0, 1, 2]"]
  by simp




text \<open>
  C4, as the code has it. The width spin box starts at 6, and the scales that findcwtPeaks
  hands to the ridge detection are \<open>1, ..., cwt_width - 1\<close>: the width itself is not among
  them. The detector is asked at no other list of scales.
\<close>

theorem C4_scales:
  "cwt_w_Spin_default = 6
   \<and> cwt_scales cwt_width = [1..cwt_width - 1]
   \<and> set (cwt_scales cwt_width) = {1..<cwt_width}
   \<and> findcwtPeaks fl find_peaks_cwt cwt_width cwt_SNR removeSml xdat ydat
       = findcwtPeaks fl (\<lambda>y scales snr. find_peaks_cwt y [1..cwt_width - 1] snr)
           cwt_width cwt_SNR removeSml xdat ydat"
  by (auto simp add: cwt_w_Spin_default_def cwt_scales_def arange_def findcwtPeaks_def peakcwt_def)

text \<open>With the default width 6 the scales are 1 to 5, not 1 to 6.\<close>

theorem C4_scales_counterexample:
  "cwt_scales cwt_w_Spin_default = [1, 2, 3, 4, 5]
   \<and> set (cwt_scales cwt_w_Spin_default) \<noteq> {1..cwt_w_Spin_default}"
proof -
  have s: "cwt_scales cwt_w_Spin_default = [1, 2, 3, 4, 5]"
    by (simp add: cwt_scales_def arange_def cwt_w_Spin_default_def upto.simps)
  have "(6::int) \<in> {1..6}" by simp
  moreover have "(6::int) \<notin> set [1, 2, 3, 4, 5]" by simp
  ultimately have "set [1, 2, 3, 4, 5] \<noteq> {1..(6::int)}" by metis
  with s show ?thesis by (simp add: cwt_w_Spin_default_def)
qed

subsection \<open>Dataset names\<close>

text \<open>
  The combo box shows the list when the window is built and after every registration.
\<close>

lemma datasetBox_init_shown: "datasetCBx datasetBox_init = datasetList_CBX datasetBox_init"
  by (simp add: datasetBox_init_def)

lemma updateDatasetComboBox_shown:
  assumes "datasetCBx self = datasetList_CBX self"
      and "updateDatasetComboBox s self name = Inr (dup, self')"
  shows "datasetCBx self' = datasetList_CBX self'"
  using assms
  by (auto simp add: updateDatasetComboBox_def addItem_def Let_def split: if_splits)

text \<open>
  C5, as the code has it. With a draw \<open>s\<close> of getRandomString(3) and the combo box showing
  the list: when the list is not \<^verbatim>\<open>['-']\<close>, registering a name that is in the list, whose
  substituted name \<open>name @ s\<close> is not yet in it, returns the substituted name, three
  characters longer, and appends it, so that both names are in the list, and the caller's
  dataset takes the substituted name; registering a name that is not in the list returns
  \<^verbatim>\<open>False\<close>, appends the name unchanged and leaves the caller's name alone. When the list
  is \<^verbatim>\<open>['-']\<close>, the list becomes the name alone and \<^verbatim>\<open>False\<close> is returned, whatever the
  name. In each case the combo box shows the list afterwards.
\<close>

theorem C5_duplicate_name:
  assumes draw: "getRandomString 3 s"
      and shown: "datasetCBx self = datasetList_CBX self"
  shows "(datasetList_CBX self \<noteq> [''-''] \<and> name \<in> set (datasetList_CBX self)
            \<and> name @ s \<notin> set (datasetList_CBX self) \<longrightarrow>
            updateDatasetComboBox s self name
              = Inr (Substituted (name @ s),
                     \<lparr>datasetList_CBX = datasetList_CBX self @ [name @ s],
                      datasetCBx = datasetList_CBX self @ [name @ s]\<rparr>)
          \<and> length (name @ s) = length name + 3
          \<and> name \<in> set (datasetList_CBX self @ [name @ s])
          \<and> name @ s \<in> set (datasetList_CBX self @ [name @ s])
          \<and> resolveDSname s self name
              = Inr (name @ s,
                     \<lparr>datasetList_CBX = datasetList_CBX self @ [name @ s],
                      datasetCBx = datasetList_CBX self @ [name @ s]\<rparr>))
       \<and> (datasetList_CBX self \<noteq> [''-''] \<and> name \<notin> set (datasetList_CBX self) \<longrightarrow>
            updateDatasetComboBox s self name
              = Inr (PyFalse,
                     \<lparr>datasetList_CBX = datasetList_CBX self @ [name],
                      datasetCBx = datasetList_CBX self @ [name]\<rparr>)
          \<and> resolveDSname s self name
              = Inr (name,
                     \<lparr>datasetList_CBX = datasetList_CBX self @ [name],
                      datasetCBx = datasetList_CBX self @ [name]\<rparr>))
       \<and> (datasetList_CBX self = [''-''] \<longrightarrow>
            updateDatasetComboBox s self name
              = Inr (PyFalse, \<lparr>datasetList_CBX = [name], datasetCBx = [name]\<rparr>)
          \<and> resolveDSname s self name
              = Inr (name, \<lparr>datasetList_CBX = [name], datasetCBx = [name]\<rparr>))"
proof -
  from draw have len: "length s = 3" by (simp add: getRandomString_def)
  then have sne: "name @ s \<noteq> []" by auto
  show ?thesis
    using len sne shown
    by (simp add: updateDatasetComboBox_def addItem_def resolveDSname_def truthy_def Let_def)
qed

theorem C5_duplicate_name_witness:
  "getRandomString 3 ''XYZ''
   \<and> updateDatasetComboBox ''XYZ'' \<lparr>datasetList_CBX = [''foo''], datasetCBx = [''foo'']\<rparr> ''foo''
       = Inr (Substituted ''fooXYZ'',
              \<lparr>datasetList_CBX = [''foo'', ''fooXYZ''], datasetCBx = [''foo'', ''fooXYZ'']\<rparr>)
   \<and> updateDatasetComboBox ''XYZ'' \<lparr>datasetList_CBX = [''foo''], datasetCBx = [''foo'']\<rparr> ''bar''
       = Inr (PyFalse, \<lparr>datasetList_CBX = [''foo'', ''bar''], datasetCBx = [''foo'', ''bar'']\<rparr>)
   \<and> updateDatasetComboBox ''XYZ'' datasetBox_init ''foo''
       = Inr (PyFalse, \<lparr>datasetList_CBX = [''foo''], datasetCBx = [''foo'']\<rparr>)"
proof -
  have d: "getRandomString 3 ''XYZ''" by (simp add: getRandomString_def)
  have sh: "datasetCBx \<lparr>datasetList_CBX = [''foo''], datasetCBx = [''foo'']\<rparr>
              = datasetList_CBX \<lparr>datasetList_CBX = [''foo''], datasetCBx = [''foo'']\<rparr>"
    by simp
  have sh0: "datasetCBx datasetBox_init = datasetList_CBX datasetBox_init"
    by (simp add: datasetBox_init_def)
  from C5_duplicate_name [OF d sh, of "''foo''"] C5_duplicate_name [OF d sh, of "''bar''"]
    C5_duplicate_name [OF d sh0, of "''foo''"] d
  show ?thesis by (simp add: datasetBox_init_def)
qed

text \<open>
  Two registrations of a name that is in the list and gets no substituted name: the name
  \<open>-\<close> on the list \<^verbatim>\<open>['-']\<close>, where \<^verbatim>\<open>False\<close> is returned and the list stays as it is; and
  the name \<open>foo\<close> with the draw \<open>XYZ\<close> on the list \<^verbatim>\<open>['foo', 'fooXYZ']\<close>, where the combo box
  refuses the item and the method raises.
\<close>

theorem C5_placeholder_and_clash_counterexample:
  "''-'' \<in> set (datasetList_CBX datasetBox_init)
   \<and> updateDatasetComboBox ''XYZ'' datasetBox_init ''-''
       = Inr (PyFalse, \<lparr>datasetList_CBX = [''-''], datasetCBx = [''-'']\<rparr>)
   \<and> ''foo'' \<in> set [''foo'', ''fooXYZ'']
   \<and> updateDatasetComboBox ''XYZ''
        \<lparr>datasetList_CBX = [''foo'', ''fooXYZ''], datasetCBx = [''foo'', ''fooXYZ'']\<rparr> ''foo''
       = Inl (Exception ''ComboBox already has item'')"
  by (simp add: datasetBox_init_def updateDatasetComboBox_def addItem_def Let_def)

subsection \<open>Histograms\<close>

lemma sum_list_indicator:
  "i < n \<Longrightarrow> sum_list (map (\<lambda>b. if i = b then 1 else 0) [0..<n]) = (1::nat)"
  by (simp add: interv_sum_list_conv_sum_set_nat)

lemma sum_bincount:
  assumes "\<forall>i\<in>set idx. i < n"
  shows "sum_list (bincount idx n) = length idx"
  using assms
proof (induction idx)
  case Nil
  then show ?case by (simp add: bincount_def)
next
  case (Cons i idx)
  have "sum_list (bincount (i # idx) n)
      = sum_list (map (\<lambda>b. count_list idx b + (if i = b then 1 else 0)) [0..<n])"
    unfolding bincount_def by (rule arg_cong [where f = sum_list]) auto
  also have "\<dots> = sum_list (bincount idx n) + sum_list (map (\<lambda>b. if i = b then 1 else 0) [0..<n])"
    by (simp add: bincount_def sum_list_addf)
  also have "\<dots> = length idx + 1"
    using Cons by (simp add: sum_list_indicator)
  finally show ?case by simp
qed

lemma bin_index_less:
  assumes "0 < bins" "first_edge < last_edge" "first_edge \<le> v" "v \<le> last_edge"
  shows "bin_index bins first_edge last_edge v < bins"
proof -
  let ?x = "(v - first_edge) / (last_edge - first_edge) * real bins"
  have "(v - first_edge) / (last_edge - first_edge) \<le> 1"
    using assms by (simp add: divide_le_eq_1)
  then have "?x \<le> 1 * real bins"
    by (intro mult_right_mono) simp_all
  then have "?x \<le> real bins" by simp
  then have "\<lfloor>?x\<rfloor> \<le> int bins" by (simp add: floor_le_iff)
  then have "nat \<lfloor>?x\<rfloor> \<le> bins" by simp
  with assms(1) show ?thesis
    by (auto simp add: bin_index_def Let_def)
qed

lemma kept_inside:
  "[v. Some v \<leftarrow> filter (\<lambda>e. case e of None \<Rightarrow> False | Some v \<Rightarrow> lo \<le> v \<and> v \<le> hi) a,
      lo \<le> v \<and> v \<le> hi]
   = [v. Some v \<leftarrow> a, lo \<le> v \<and> v \<le> hi]"
  by (induction a) (auto split: option.splits)

lemma bin_index_top:
  assumes "0 < bins" "0 < mx"
  shows "bin_index bins 0 mx mx = bins - 1"
  using assms by (simp add: bin_index_def)

lemma bincount_Cons:
  assumes "i < n"
  shows "bincount (i # idx) n = (bincount idx n)[i := Suc (bincount idx n ! i)]"
proof (rule nth_equalityI)
  show "length (bincount (i # idx) n) = length ((bincount idx n)[i := Suc (bincount idx n ! i)])"
    by (simp add: bincount_def)
next
  fix b assume "b < length (bincount (i # idx) n)"
  then have b: "b < n" by (simp add: bincount_def)
  with assms show "bincount (i # idx) n ! b = (bincount idx n)[i := Suc (bincount idx n ! i)] ! b"
    by (auto simp add: bincount_def nth_list_update)
qed

lemma last_bin_holds_top:
  assumes "0 < bins" "0 < mx"
  shows "count_list pdata (Some mx)
           \<le> count_list (map (bin_index bins 0 mx) [v. Some v \<leftarrow> pdata, 0 \<le> v \<and> v \<le> mx])
                (bins - 1)"
proof (induction pdata)
  case Nil
  show ?case by simp
next
  case (Cons e pdata)
  show ?case
  proof (cases e)
    case None
    with Cons show ?thesis by simp
  next
    case (Some v)
    show ?thesis
    proof (cases "v = mx")
      case True
      with Some Cons assms show ?thesis by (simp add: bin_index_top)
    next
      case False
      with Some Cons show ?thesis by simp
    qed
  qed
qed

text \<open>
  C6, as the code has it. For a bin count of at least 1 and an upper edge above 0 the
  histogram of a cell has \<open>nbins\<close> counts whose sum is the number of amplitudes in the
  closed interval from 0 to the upper edge; the amplitudes outside it, and NaN entries,
  are in no bin: the histogram is that of the amplitudes inside alone. An amplitude equal
  to the upper edge is counted in the last bin: the last count is at least the number of
  such amplitudes, and one more of them raises the last count by one and no other.
\<close>

theorem C6_histogram_closed:
  assumes "1 \<le> nbins" and "0 < mx"
  shows "(\<exists>counts. cell_histogram pdata nbins mx = Inr counts
           \<and> length counts = nat nbins
           \<and> sum_list counts = count_closed pdata mx
           \<and> count_list pdata (Some mx) \<le> counts ! (nat nbins - 1)
           \<and> cell_histogram (Some mx # pdata) nbins mx
               = Inr (counts[nat nbins - 1 := Suc (counts ! (nat nbins - 1))]))
       \<and> cell_histogram pdata nbins mx
           = cell_histogram
               (filter (\<lambda>e. case e of None \<Rightarrow> False | Some v \<Rightarrow> 0 \<le> v \<and> v \<le> mx) pdata)
               nbins mx"
proof -
  let ?n = "nat nbins"
  let ?kept = "[v. Some v \<leftarrow> pdata, 0 \<le> v \<and> v \<le> mx]"
  let ?idx = "map (bin_index ?n 0 mx) ?kept"
  from assms have n: "0 < ?n" by simp
  have h: "cell_histogram pdata nbins mx = Inr (bincount ?idx ?n)"
    using assms by (simp add: cell_histogram_def np_histogram_def Let_def)
  have k: "\<forall>v\<in>set ?kept. 0 \<le> v \<and> v \<le> mx"
    by (auto split: option.splits)
  have "\<forall>i\<in>set ?idx. i < ?n"
  proof
    fix i assume "i \<in> set ?idx"
    then obtain v where v: "v \<in> set ?kept" and i: "i = bin_index ?n 0 mx v" by auto
    from v k have "0 \<le> v" "v \<le> mx" by blast+
    with assms show "i < ?n" unfolding i by (intro bin_index_less) simp_all
  qed
  then have "sum_list (bincount ?idx ?n) = length ?idx" by (rule sum_bincount)
  then have s: "sum_list (bincount ?idx ?n) = count_closed pdata mx"
    by (simp add: count_closed_def)
  have l: "length (bincount ?idx ?n) = ?n"
    by (simp add: bincount_def)
  have t: "count_list pdata (Some mx) \<le> bincount ?idx ?n ! (?n - 1)"
    using last_bin_holds_top [OF n assms(2), of pdata] n by (simp add: bincount_def)
  have "cell_histogram (Some mx # pdata) nbins mx = Inr (bincount ((?n - 1) # ?idx) ?n)"
    using assms n by (simp add: cell_histogram_def np_histogram_def Let_def bin_index_top)
  also have "bincount ((?n - 1) # ?idx) ?n
      = (bincount ?idx ?n)[?n - 1 := Suc (bincount ?idx ?n ! (?n - 1))]"
    using n by (intro bincount_Cons) simp
  finally have a: "cell_histogram (Some mx # pdata) nbins mx
      = Inr ((bincount ?idx ?n)[?n - 1 := Suc (bincount ?idx ?n ! (?n - 1))])" .
  from h l s t a have first: "\<exists>counts. cell_histogram pdata nbins mx = Inr counts
           \<and> length counts = nat nbins \<and> sum_list counts = count_closed pdata mx
           \<and> count_list pdata (Some mx) \<le> counts ! (nat nbins - 1)
           \<and> cell_histogram (Some mx # pdata) nbins mx
               = Inr (counts[nat nbins - 1 := Suc (counts ! (nat nbins - 1))])"
    by blast
  let ?inside = "filter (\<lambda>e. case e of None \<Rightarrow> False | Some v \<Rightarrow> 0 \<le> v \<and> v \<le> mx) pdata"
  have "cell_histogram ?inside nbins mx
      = Inr (bincount (map (bin_index ?n 0 mx)
                         [v. Some v \<leftarrow> ?inside, 0 \<le> v \<and> v \<le> mx]) ?n)"
    using assms by (simp add: cell_histogram_def np_histogram_def Let_def)
  then have "cell_histogram ?inside nbins mx = Inr (bincount ?idx ?n)"
    unfolding kept_inside .
  with h have "cell_histogram pdata nbins mx = cell_histogram ?inside nbins mx" by simp
  with first show ?thesis by (rule conjI)
qed

theorem C6_histogram_closed_witness:
  "(1::int) \<le> 4 \<and> (0::real) < 1
   \<and> cell_histogram [Some (1/10), Some (3/10), None, Some 1, Some (-1/10), Some (3/2), Some 0, Some (1/4)] 4 1
       = Inr [2, 2, 0, 1]
   \<and> count_closed [Some (1/10), Some (3/10), None, Some 1, Some (-1/10), Some (3/2), Some 0, Some (1/4)] 1 = 5"
  using C6_histogram_closed [of 4 1 "[Some (1/10), Some (3/10), None, Some 1, Some (-1/10), Some (3/2), Some 0, Some (1/4)]"]
  by (simp add: cell_histogram_def np_histogram_def bincount_def bin_index_def upt_rec count_closed_def)

text \<open>
  One amplitude equal to the upper edge 2, two bins: it is counted in the last bin,
  although it is not in the half-open interval from 0 to 2.
\<close>

theorem C6_upper_edge_counterexample:
  "cell_histogram [Some 2] 2 2 = Inr [0, 1]
   \<and> sum_list [0, 1::nat] \<noteq> count_half_open [Some 2] 2"
  by (simp add: cell_histogram_def np_histogram_def bincount_def bin_index_def upt_rec count_half_open_def)

subsection \<open>Baseline parameters\<close>

text \<open>
  C8, as the code has it. At every position of the two sliders lambda is positive and
  \<open>p\<close> is positive and at most 1; \<open>p\<close> is below 1 exactly when the p slider is not at its
  minimum 0.
\<close>

theorem C8_baseline_params:
  assumes "lam_value \<in> auto_bs_lam_slider_positions"
      and "P_value \<in> auto_bs_P_slider_positions"
  shows "0 < fst (setBaselineParams lam_value P_value)
       \<and> 0 < snd (setBaselineParams lam_value P_value)
       \<and> snd (setBaselineParams lam_value P_value) \<le> 1
       \<and> (snd (setBaselineParams lam_value P_value) < 1 \<longleftrightarrow> P_value \<noteq> 0)"
proof -
  from assms(2) have p: "0 \<le> P_value" by (simp add: auto_bs_P_slider_positions_def)
  have "(10::real) powr (- real_of_int P_value / 5) \<le> 10 powr 0"
    using p by (intro powr_mono) simp_all
  moreover have "(10::real) powr (- real_of_int P_value / 5) < 10 powr 0" if "P_value \<noteq> 0"
    using p that by (intro powr_less_mono) simp_all
  ultimately show ?thesis
    by (auto simp add: setBaselineParams_def)
qed

theorem C8_baseline_params_witness:
  "(6::int) \<in> auto_bs_lam_slider_positions \<and> (3::int) \<in> auto_bs_P_slider_positions
   \<and> 0 < fst (setBaselineParams 6 3) \<and> 0 < snd (setBaselineParams 6 3)
   \<and> snd (setBaselineParams 6 3) < 1"
  using C8_baseline_params [of 6 3]
  by (simp add: auto_bs_lam_slider_positions_def auto_bs_P_slider_positions_def)

text \<open>With the p slider at its minimum, \<open>p = 10 ** (-0 / 5) = 1\<close>, which is not below 1.\<close>

theorem C8_p_slider_zero_counterexample:
  "(0::int) \<in> auto_bs_P_slider_positions \<and> (6::int) \<in> auto_bs_lam_slider_positions
   \<and> snd (setBaselineParams 6 0) = 1
   \<and> \<not> snd (setBaselineParams 6 0) < 1"
  by (simp add: auto_bs_lam_slider_positions_def auto_bs_P_slider_positions_def setBaselineParams_def)

subsection \<open>Reference peak times\<close>

lemma somes_sort_values: "[v. Some v \<leftarrow> ser] = xs \<Longrightarrow> dropna (sort_values ser) = map Some (sort xs)"
  by (auto simp add: dropna_def sort_values_def filter_empty_conv intro!: filter_True)

text \<open>
  C9. Whatever the time column of the reference cell holds, the times that extractAllPeaks
  stores in the Results of the working dataset, passes to the dialog and, when the dialog is
  accepted, stores in the extracted dataset are free of NaN and in ascending order; they
  are the cell's entries other than NaN, each as often as it occurs there.
\<close>

theorem C9_peakTimes_sorted:
  "nan_free_ascending (resultsDF_peakTimes (extractAllPeaks peak_t accepted))
   \<and> nan_free_ascending (extPa_tPeaks (extractAllPeaks peak_t accepted))
   \<and> extracted_peakTimes (extractAllPeaks peak_t accepted)
       = (if accepted then Some (resultsDF_peakTimes (extractAllPeaks peak_t accepted)) else None)
   \<and> mset (resultsDF_peakTimes (extractAllPeaks peak_t accepted))
       = mset (filter (\<lambda>e. e \<noteq> None) peak_t)"
proof -
  have d: "dropna (sort_values peak_t) = map Some (sort [v. Some v \<leftarrow> peak_t])"
    by (rule somes_sort_values) simp
  have m: "mset (map Some (sort [v. Some v \<leftarrow> peak_t])) = mset (filter (\<lambda>e. e \<noteq> None) peak_t)"
  proof -
    have a: "mset (map Some (sort xs)) = image_mset Some (mset xs)" for xs :: "real list"
      by simp
    have b: "image_mset Some (mset [v. Some v \<leftarrow> peak_t])
        = mset (filter (\<lambda>e. e \<noteq> None) peak_t)"
      by (induction peak_t) (auto split: option.splits)
    show ?thesis by (rule trans [OF a b])
  qed
  have r: "resultsDF_peakTimes (extractAllPeaks peak_t accepted)
             = map Some (sort [v. Some v \<leftarrow> peak_t])"
    by (simp add: extractAllPeaks_def Let_def d)
  have e: "extPa_tPeaks (extractAllPeaks peak_t accepted)
             = map Some (sort [v. Some v \<leftarrow> peak_t])"
    by (simp add: extractAllPeaks_def Let_def d)
  have s: "nan_free_ascending (map Some (sort xs))" for xs :: "real list"
    by (auto simp add: nan_free_ascending_def comp_def)
  show ?thesis
  proof (intro conjI)
    show "nan_free_ascending (resultsDF_peakTimes (extractAllPeaks peak_t accepted))"
      unfolding r by (rule s)
    show "nan_free_ascending (extPa_tPeaks (extractAllPeaks peak_t accepted))"
      unfolding e by (rule s)
    show "extracted_peakTimes (extractAllPeaks peak_t accepted)
       = (if accepted then Some (resultsDF_peakTimes (extractAllPeaks peak_t accepted)) else None)"
      by (simp add: extractAllPeaks_def Let_def)
    show "mset (resultsDF_peakTimes (extractAllPeaks peak_t accepted))
       = mset (filter (\<lambda>e. e \<noteq> None) peak_t)"
      unfolding r by (rule m)
  qed
qed

theorem C9_peakTimes_sorted_witness:
  "resultsDF_peakTimes (extractAllPeaks [Some 3, None, Some 1, Some 2, None, Some 1] True)
     = [Some 1, Some 1, Some 2, Some 3]
   \<and> nan_free_ascending [Some 1, Some 1, Some 2, Some 3]"
  using C9_peakTimes_sorted [of "[Some 3, None, Some 1, Some 2, None, Some 1]" True]
  by (simp add: extractAllPeaks_def Let_def dropna_def sort_values_def)

subsection \<open>Peak export\<close>

lemma write_header_untouched:
  "\<not> (r = 1 \<and> num + 1 \<le> c \<and> c \<le> num + length cols) \<Longrightarrow>
   cells (write_header num cols condi ws) (r, c) = cells ws (r, c)"
  by (induction cols arbitrary: num ws) (auto simp add: set_cell_def)

lemma write_header_written:
  "j < length cols \<Longrightarrow>
   cells (write_header num cols condi ws) (1, num + 1 + j) = Some (XStr (cols ! j @ '' '' @ condi))"
proof (induction cols arbitrary: num ws j)
  case Nil
  then show ?case by simp
next
  case (Cons pcol rest)
  show ?case
  proof (cases j)
    case 0
    then show ?thesis
      by (simp add: write_header_untouched set_cell_def)
  next
    case (Suc j')
    with Cons.prems have "j' < length rest" by simp
    from Cons.IH [OF this, of "num + 1"] Suc show ?thesis by simp
  qed
qed

lemma write_header_current_row:
  "cols \<noteq> [] \<Longrightarrow> current_row ws = 0 \<Longrightarrow> current_row (write_header num cols condi ws) = 1"
proof (induction cols arbitrary: num ws)
  case Nil
  then show ?case by simp
next
  case (Cons pcol rest)
  have "current_row (write_header n rest condi w) = current_row w" if "current_row w = 1" for n w
    using that by (induction rest arbitrary: n w) (simp_all add: set_cell_def)
  then show ?case using Cons.prems by (simp add: set_cell_def)
qed

lemma append_rows_untouched:
  "\<not> (current_row ws < r \<and> r \<le> current_row ws + length rows) \<Longrightarrow>
   cells (append_rows rows ws) (r, c) = cells ws (r, c)"
  by (induction rows arbitrary: ws) (auto simp add: append_row_def Let_def)

lemma append_rows_written:
  "i < length rows \<Longrightarrow> j < length (rows ! i) \<Longrightarrow>
   cells (append_rows rows ws) (current_row ws + 1 + i, j + 1) = Some (XNum (rows ! i ! j))"
proof (induction rows arbitrary: ws i)
  case Nil
  then show ?case by simp
next
  case (Cons row rest)
  let ?ws = "append_row (map XNum row) ws"
  have cr: "current_row ?ws = current_row ws + 1" by (simp add: append_row_def Let_def)
  show ?case
  proof (cases i)
    case 0
    with Cons.prems have "j < length row" by simp
    then have "cells ?ws (current_row ws + 1, j + 1) = Some (XNum (row ! j))"
      by (simp add: append_row_def Let_def)
    with 0 show ?thesis
      by (simp add: append_rows_untouched cr)
  next
    case (Suc i')
    with Cons.prems have "i' < length rest" "j < length (rest ! i')" by simp_all
    from Cons.IH [OF this, of ?ws] Suc show ?thesis by (simp add: cr)
  qed
qed

lemma write_index_untouched:
  "\<not> (c = 1 \<and> (r = 1 \<or> (num + 2 \<le> r \<and> r < num + 2 + length idx))) \<Longrightarrow>
   cells (write_index num idx ws) (r, c) = cells ws (r, c)"
  by (induction idx arbitrary: num ws) (auto simp add: set_cell_def)

lemma write_index_keeps_time:
  "cells ws (Suc 0, Suc 0) = Some (XStr ''Time'') \<Longrightarrow>
   cells (write_index num idx ws) (Suc 0, Suc 0) = Some (XStr ''Time'')"
  by (induction idx arbitrary: num ws) (simp_all add: set_cell_def)

lemma write_index_time:
  "cells (write_index num idx ws) (Suc 0, Suc 0)
     = (if idx = [] then cells ws (Suc 0, Suc 0) else Some (XStr ''Time''))"
  by (cases idx) (simp_all add: write_index_keeps_time set_cell_def)

lemma write_index_written:
  "i < length idx \<Longrightarrow>
   cells (write_index num idx ws) (num + 2 + i, 1) = Some (XNum (Some (idx ! i)))"
proof (induction idx arbitrary: num ws i)
  case Nil
  then show ?case by simp
next
  case (Cons pin rest)
  show ?case
  proof (cases i)
    case 0
    have "cells (write_index (num + 1) rest w) (num + 2, 1) = cells w (num + 2, 1)" for w
      by (simp add: write_index_untouched)
    with 0 show ?thesis
      by (simp add: set_cell_def)
  next
    case (Suc i')
    with Cons.prems have "i' < length rest" by simp
    from Cons.IH [OF this, of "num + 1"] Suc show ?thesis by simp
  qed
qed

lemma kept_labels_set:
  "set [t. (t, d) \<leftarrow> zip ts (duplicated_first seen ts), \<not> d] = set ts - set seen"
  by (induction ts arbitrary: seen) auto

lemma kept_labels_distinct:
  "distinct [t. (t, d) \<leftarrow> zip ts (duplicated_first seen ts), \<not> d]"
proof (induction ts arbitrary: seen)
  case Nil
  show ?case by simp
next
  case (Cons a ts)
  have "a \<notin> set [t. (t, d) \<leftarrow> zip ts (duplicated_first (a # seen) ts), \<not> d]"
    unfolding kept_labels_set by simp
  with Cons [of "a # seen"] show ?case by simp
qed

lemma kept_rows_first:
  assumes "length rs = length ts"
    and "(t, r) \<in> set (zip [t. (t, d) \<leftarrow> zip ts (duplicated_first seen ts), \<not> d]
                           [r. (r, d) \<leftarrow> zip rs (duplicated_first seen ts), \<not> d])"
  shows "t \<notin> set seen \<and> map_of (zip ts rs) t = Some r"
  using assms
proof (induction ts arbitrary: seen rs)
  case Nil
  then show ?case by simp
next
  case (Cons a ts)
  then obtain b rs' where rs: "rs = b # rs'" and len: "length rs' = length ts"
    by (cases rs) auto
  show ?case
  proof (cases "a \<in> set seen")
    case True
    with Cons.prems(2) have "(t, r) \<in> set (zip [t. (t, d) \<leftarrow> zip ts (duplicated_first (a # seen) ts), \<not> d]
                           [r. (r, d) \<leftarrow> zip rs' (duplicated_first (a # seen) ts), \<not> d])"
      by (simp add: rs)
    from Cons.IH [OF len this] show ?thesis by (auto simp add: rs)
  next
    case False
    with Cons.prems(2) have "(t, r) = (a, b) \<or> (t, r) \<in> set (zip [t. (t, d) \<leftarrow> zip ts (duplicated_first (a # seen) ts), \<not> d]
                           [r. (r, d) \<leftarrow> zip rs' (duplicated_first (a # seen) ts), \<not> d])"
      by (simp add: rs)
    then show ?thesis
    proof
      assume "(t, r) = (a, b)"
      with False show ?thesis by (simp add: rs)
    next
      assume "(t, r) \<in> set (zip [t. (t, d) \<leftarrow> zip ts (duplicated_first (a # seen) ts), \<not> d]
                           [r. (r, d) \<leftarrow> zip rs' (duplicated_first (a # seen) ts), \<not> d])"
      from Cons.IH [OF len this] show ?thesis by (auto simp add: rs)
    qed
  qed
qed

text \<open>
  The table without its duplicated rows has every row label of the table once, each with
  the entries of the first row that carries it.
\<close>

lemma loc_not_duplicated_keep_first:
  assumes "length (df_values df) = length (df_index df)"
  shows "distinct (df_index (loc_not_duplicated df))"
    and "set (df_index (loc_not_duplicated df)) = set (df_index df)"
    and "(t, r) \<in> set (zip (df_index (loc_not_duplicated df)) (df_values (loc_not_duplicated df)))
         \<Longrightarrow> map_of (zip (df_index df) (df_values df)) t = Some r"
proof -
  show "distinct (df_index (loc_not_duplicated df))"
    by (simp add: loc_not_duplicated_def Let_def kept_labels_distinct)
  show "set (df_index (loc_not_duplicated df)) = set (df_index df)"
    using kept_labels_set [of "df_index df" "[]"]
    by (simp add: loc_not_duplicated_def Let_def)
  show "map_of (zip (df_index df) (df_values df)) t = Some r"
    if "(t, r) \<in> set (zip (df_index (loc_not_duplicated df)) (df_values (loc_not_duplicated df)))"
    using kept_rows_first [OF assms, of t r "[]"] that
    by (simp add: loc_not_duplicated_def Let_def)
qed

lemma loc_not_duplicated_empty:
  "df_index (loc_not_duplicated df) = [] \<longleftrightarrow> df_index df = []"
  by (cases "df_index df") (simp_all add: loc_not_duplicated_def Let_def)

lemma loc_not_duplicated_columns: "df_columns (loc_not_duplicated df) = df_columns df"
  by (simp add: loc_not_duplicated_def Let_def)

text \<open>
  What a sheet holds for a table with at least one ROI column: the ROI headings from the
  second column on, the row labels of the table without its duplicated rows in the first
  column from the second row on, its entries beside them, and \<open>Time\<close> above the labels
  exactly when the table has a row.
\<close>

lemma write_sheet_layout:
  assumes cols: "df_columns df \<noteq> []"
  shows "cells (write_sheet condi df) (1, 1)
           = (if df_index df = [] then None else Some (XStr ''Time''))"
    and "j < length (df_columns df) \<Longrightarrow>
         cells (write_sheet condi df) (1, j + 2) = Some (XStr (df_columns df ! j @ '' '' @ condi))"
    and "i < length (df_index (loc_not_duplicated df)) \<Longrightarrow>
         cells (write_sheet condi df) (i + 2, 1)
           = Some (XNum (Some (df_index (loc_not_duplicated df) ! i)))"
    and "i < length (df_values (loc_not_duplicated df)) \<Longrightarrow>
         j < length (df_values (loc_not_duplicated df) ! i) \<Longrightarrow>
         cells (write_sheet condi df) (i + 2, j + 2)
           = Some (XNum (df_values (loc_not_duplicated df) ! i ! j))"
proof -
  let ?pe = "loc_not_duplicated df"
  let ?ws1 = "write_header 0 (df_columns ?pe) condi new_sheet"
  let ?ws2 = "append_rows (df_values ?pe) ?ws1"
  let ?ws3 = "insert_cols1 ?ws2"
  have ws: "write_sheet condi df = write_index 0 (df_index ?pe) ?ws3"
    by (simp add: write_sheet_def Let_def)
  have cr: "current_row ?ws1 = 1"
    using cols by (intro write_header_current_row) (simp_all add: loc_not_duplicated_columns new_sheet_def)
  show "cells (write_sheet condi df) (1, 1)
           = (if df_index df = [] then None else Some (XStr ''Time''))"
    by (simp add: ws write_index_time loc_not_duplicated_empty insert_cols1_def)
  show "cells (write_sheet condi df) (1, j + 2) = Some (XStr (df_columns df ! j @ '' '' @ condi))"
    if "j < length (df_columns df)"
  proof -
    have "cells (write_sheet condi df) (1, j + 2) = cells ?ws3 (1, j + 2)"
      unfolding ws by (rule write_index_untouched) simp
    also have "\<dots> = cells ?ws2 (1, j + 1)" by (simp add: insert_cols1_def)
    also have "\<dots> = cells ?ws1 (1, j + 1)"
      by (rule append_rows_untouched) (simp add: cr)
    also have "\<dots> = Some (XStr (df_columns df ! j @ '' '' @ condi))"
      using write_header_written [OF that, of 0 condi new_sheet]
      by (simp add: loc_not_duplicated_columns)
    finally show ?thesis .
  qed
  show "cells (write_sheet condi df) (i + 2, 1) = Some (XNum (Some (df_index ?pe ! i)))"
    if "i < length (df_index ?pe)"
    unfolding ws using write_index_written [OF that, of 0 ?ws3] by simp
  show "cells (write_sheet condi df) (i + 2, j + 2) = Some (XNum (df_values ?pe ! i ! j))"
    if "i < length (df_values ?pe)" "j < length (df_values ?pe ! i)"
  proof -
    have "cells (write_sheet condi df) (i + 2, j + 2) = cells ?ws3 (i + 2, j + 2)"
      unfolding ws by (rule write_index_untouched) simp
    also have "\<dots> = cells ?ws2 (i + 2, j + 1)" by (simp add: insert_cols1_def)
    also have "\<dots> = Some (XNum (df_values ?pe ! i ! j))"
      using append_rows_written [OF that, of ?ws1] by (simp add: cr)
    finally show ?thesis .
  qed
qed

text \<open>
  Where the excluded list has a table for a condition, the merged dictionary holds that
  table for the condition and the sheet is written from it.
\<close>

lemma save_peaks_excluded_table:
  "save_peaks False ''peaks.xlsx'' [(''A'', allowed)] [(''A'', excluded)]
     = Some [(''A'', write_sheet ''A'' excluded)]"
  by (simp add: save_peaks_def dict_merge_def)

text \<open>
  C7 at a condition whose decomposed table has its ROI columns and no rows: the sheet
  gets the headings \<open>ROI1 A\<close> and \<open>ROI2 A\<close> in its second and third column, and its first
  column has no heading, since \<open>Time\<close> is written only while the row labels are written.
\<close>

theorem C7_empty_table:
  "save_peaks False ''peaks.xlsx''
      [(''A'', \<lparr>df_columns = [''ROI1'', ''ROI2''], df_index = [], df_values = []\<rparr>)] []
     = Some [(''A'', write_sheet ''A''
                \<lparr>df_columns = [''ROI1'', ''ROI2''], df_index = [], df_values = []\<rparr>)]
   \<and> cells (write_sheet ''A'' \<lparr>df_columns = [''ROI1'', ''ROI2''], df_index = [], df_values = []\<rparr>) (1, 1)
       = None
   \<and> cells (write_sheet ''A'' \<lparr>df_columns = [''ROI1'', ''ROI2''], df_index = [], df_values = []\<rparr>) (1, 2)
       = Some (XStr ''ROI1 A'')
   \<and> cells (write_sheet ''A'' \<lparr>df_columns = [''ROI1'', ''ROI2''], df_index = [], df_values = []\<rparr>) (1, 3)
       = Some (XStr ''ROI2 A'')"
proof -
  have "save_peaks False ''peaks.xlsx''
      [(''A'', \<lparr>df_columns = [''ROI1'', ''ROI2''], df_index = [], df_values = []\<rparr>)] []
     = Some [(''A'', write_sheet ''A''
                \<lparr>df_columns = [''ROI1'', ''ROI2''], df_index = [], df_values = []\<rparr>)]"
    by (simp add: save_peaks_def dict_merge_def)
  then show ?thesis
    by (simp add: write_sheet_def loc_not_duplicated_def new_sheet_def set_cell_def
        insert_cols1_def Let_def)
qed

subsection \<open>The group-analysis dialog\<close>

lemma updateGroup_other: "x \<noteq> ''NRepeats'' \<Longrightarrow> snd (updateGroup self) x = self x"
  by (auto simp add: updateGroup_def getattr_def Let_def split: option.splits pyval.splits)

lemma addData_other: "x \<noteq> ''peakData'' \<Longrightarrow> snd (addData data self) x = self x"
  by (auto simp add: addData_def getattr_def Let_def split: option.splits)

lemma groupPeaks_other: "x \<noteq> ''groupsextracted_by_set'' \<Longrightarrow> snd (groupPeaks self) x = self x"
  by (auto simp add: groupPeaks_def getattr_def Let_def split: option.splits pyval.splits list.splits)

lemma groupPeaks_extracted: "snd (groupPeaks self) ''groupsextracted_by_set'' = Some (VFrames [])"
  by (auto simp add: groupPeaks_def getattr_def Let_def split: option.splits pyval.splits list.splits)

lemma groupPeaks_raises: "\<exists>e. fst (groupPeaks self) = Inl e"
  by (auto simp add: groupPeaks_def getattr_def Let_def split: option.splits pyval.splits list.splits)

lemma reachable_invariant:
  assumes "reachable self"
  shows "self ''peakdata'' = None
       \<and> self ''saveGroupsBtn'' = Some (VButton False)
       \<and> (\<exists>v. self ''groupNSB'' = Some (VSpinBox v))
       \<and> (self ''groupsextracted_by_set'' = None
            \<or> self ''groupsextracted_by_set'' = Some (VFrames []))"
  using assms
proof (induction rule: reachable.induct)
  case reach_init
  show ?case
    by (simp add: groupDialog_init_def updateGroup_other)
next
  case (reach_addData self data)
  then show ?case by (simp add: addData_other)
next
  case (reach_groupPeaks self)
  then show ?case by (simp add: groupPeaks_other groupPeaks_extracted)
next
  case (reach_spin self v)
  then show ?case by (simp add: groupNSB_changed_def updateGroup_other)
qed

lemma groupPeaks_peakdata_missing:
  assumes "self ''peakdata'' = None" and "self ''groupNSB'' = Some (VSpinBox v)"
  shows "fst (groupPeaks self) = Inl (AttributeError ''peakdata'')"
  using assms by (simp add: groupPeaks_def getattr_def Let_def)

text \<open>
  C10. In every state of the dialog, after addData with any data, groupPeaks raises
  AttributeError for \<^verbatim>\<open>peakdata\<close> (the data is in \<^verbatim>\<open>peakData\<close>); it leaves
  \<^verbatim>\<open>groupsextracted_by_set\<close> as the empty dictionary and the save button disabled. So in
  no state of the dialog is the dictionary populated or the button enabled.
\<close>

theorem C10_groupPeaks_raises:
  assumes "reachable self"
  shows "fst (groupPeaks (snd (addData data self))) = Inl (AttributeError ''peakdata'')
       \<and> snd (addData data self) ''peakData'' = Some (VFrames data)
       \<and> snd (groupPeaks (snd (addData data self))) ''groupsextracted_by_set'' = Some (VFrames [])
       \<and> snd (groupPeaks (snd (addData data self))) ''saveGroupsBtn'' = Some (VButton False)
       \<and> self ''saveGroupsBtn'' = Some (VButton False)
       \<and> (self ''groupsextracted_by_set'' = None
            \<or> self ''groupsextracted_by_set'' = Some (VFrames []))"
proof -
  from assms have r: "reachable (snd (addData data self))" by (rule reach_addData)
  from reachable_invariant [OF r] obtain v where
    a: "snd (addData data self) ''peakdata'' = None"
      "snd (addData data self) ''groupNSB'' = Some (VSpinBox v)" by blast
  have "reachable (snd (groupPeaks (snd (addData data self))))" using r by (rule reach_groupPeaks)
  from reachable_invariant [OF this] reachable_invariant [OF assms]
    groupPeaks_peakdata_missing [OF a] groupPeaks_extracted
  show ?thesis
    by (simp add: addData_def getattr_def Let_def split: option.splits)
qed

theorem C10_groupPeaks_raises_witness:
  "reachable (snd groupDialog_init)
   \<and> fst (groupPeaks (snd (addData [(''A'', \<lparr>df_columns = [''ROI1''], df_index = [1, 2],
                df_values = [[Some 1], [Some 2]]\<rparr>)] (snd groupDialog_init))))
       = Inl (AttributeError ''peakdata'')
   \<and> snd groupDialog_init ''saveGroupsBtn'' = Some (VButton False)"
  using C10_groupPeaks_raises [OF reach_init, of "[(''A'', \<lparr>df_columns = [''ROI1''], df_index = [1, 2],
                df_values = [[Some 1], [Some 2]]\<rparr>)]"] reach_init
  by simp

end
